theory Spec2Isabelle
  imports Complex_Main "HOL-Library.Word" "HOL-Library.Sublist" "HOL-Library.Multiset"
begin

unbundle bit_operations_syntax

section \<open>Grading of oracle price records (pegnet: opr/grading.go and the grader module)\<close>

subsection \<open>Go values: bytes, panics, float64\<close>

type_synonym byte = "8 word"
type_synonym uint64 = "64 word"
type_synonym int32 = "32 word"

text \<open>
  A Go function either returns or panics. A panic is the left summand of the result;
  no function of these files recovers from one.
\<close>

datatype panic = IndexOutOfRange | SliceBoundsOutOfRange | PanicMsg string

text \<open>
  The arithmetic on \<open>float64\<close> is a parameter of the model: every function that
  computes with prices takes the operations it uses. Nothing is assumed about them, so
  what is proved holds for IEEE-754 doubles with their rounding, infinities and NaN.
  \<open>fle a b\<close> is Go's \<open>a <= b\<close> (written \<open>b >= a\<close> in the source), \<open>flt a b\<close> is
  \<open>a < b\<close>, \<open>fof_nat n\<close> is the conversion \<open>float64(n)\<close>.
\<close>

record 'f float_ops =
  fzero :: 'f
  fof_nat :: "nat \<Rightarrow> 'f"
  fadd :: "'f \<Rightarrow> 'f \<Rightarrow> 'f"
  fsub :: "'f \<Rightarrow> 'f \<Rightarrow> 'f"
  fmul :: "'f \<Rightarrow> 'f \<Rightarrow> 'f"
  fdiv :: "'f \<Rightarrow> 'f \<Rightarrow> 'f"
  fle :: "'f \<Rightarrow> 'f \<Rightarrow> bool"
  flt :: "'f \<Rightarrow> 'f \<Rightarrow> bool"

text \<open>
  Exact arithmetic on the reals. It agrees with float64 wherever every intermediate
  result is exactly representable; it is used only to run the model on such inputs.
\<close>

definition exact_ops :: "real float_ops" where
  "exact_ops = \<lparr> fzero = 0, fof_nat = real, fadd = (+), fsub = (-), fmul = (*),
                  fdiv = (/), fle = (\<le>), flt = (<) \<rparr>"

subsection \<open>encoding/binary and encoding/hex\<close>

text \<open>
  \<open>binary.BigEndian.Uint64(b)\<close> reads \<open>b[7]\<close> first, which panics on a slice shorter
  than 8 bytes, and then assembles the eight bytes, most significant first.
\<close>

definition Uint64 :: "byte list \<Rightarrow> panic + uint64" where
  "Uint64 b =
     (if length b < 8 then Inl IndexOutOfRange
      else Inr (ucast (b ! 7) OR push_bit 8 (ucast (b ! 6)) OR push_bit 16 (ucast (b ! 5))
                OR push_bit 24 (ucast (b ! 4)) OR push_bit 32 (ucast (b ! 3))
                OR push_bit 40 (ucast (b ! 2)) OR push_bit 48 (ucast (b ! 1))
                OR push_bit 56 (ucast (b ! 0))))"

definition hextable :: string where
  "hextable = ''0123456789abcdef''"

fun EncodeToString :: "byte list \<Rightarrow> string" where
  "EncodeToString [] = []"
| "EncodeToString (v # src) =
     hextable ! unat (drop_bit 4 v) # hextable ! unat (v AND 0x0f) # EncodeToString src"

subsection \<open>sort.SliceStable\<close>

text \<open>
  The standard library's stable sort, by a less-than function \<open>lt\<close> on the elements,
  as insertion sort: an element is placed behind the sorted elements that are \<open>lt\<close> it
  and before the first that is not, so elements neither of which is \<open>lt\<close> the other
  keep their order.
\<close>

fun insertStable :: "('a \<Rightarrow> 'a \<Rightarrow> bool) \<Rightarrow> 'a \<Rightarrow> 'a list \<Rightarrow> 'a list" where
  "insertStable lt x [] = [x]"
| "insertStable lt x (y # ys) =
     (if lt y x then y # insertStable lt x ys else x # y # ys)"

definition SliceStable :: "('a \<Rightarrow> 'a \<Rightarrow> bool) \<Rightarrow> 'a list \<Rightarrow> 'a list" where
  "SliceStable lt xs = foldr (insertStable lt) xs []"

subsection \<open>Package opr: the record\<close>

text \<open>
  The fields of \<open>OraclePriceRecord\<close> that grading.go reads or writes. \<open>Tokens\<close> is what
  \<open>opr.GetTokens()\<close> returns, one value per token (only \<open>token.value\<close> is used). The
  slices hold pointers; the model holds the records themselves, which is the same as
  long as no record is in a list twice by pointer.

  A byte list stands for a byte slice whose capacity is its length, with a backing array
  of its own: \<open>append\<close> to it allocates and \<open>s[:8]\<close> reaches no further than its
  bytes. Slices that are windows on a shared buffer, with room behind them, are modelled
  on a memory further down.
\<close>

record 'f OraclePriceRecord =
  Nonce :: "byte list"
  OPRHash :: "byte list"
  SelfReportedDifficulty :: "byte list"
  Difficulty :: uint64
  Grade :: 'f
  Tokens :: "'f list"
  WinPreviousOPR :: "string list"
  EntryHash :: "byte list"

subsection \<open>Avg and CalculateGrade\<close>

text \<open>
  The inner loop of \<open>Avg\<close> over one record's tokens, from index \<open>i\<close>: \<open>avg[i]\<close> is
  indexed without a check, so a token beyond the length of \<open>avg\<close> panics.
\<close>

fun addTokens :: "'f float_ops \<Rightarrow> nat \<Rightarrow> 'f list \<Rightarrow> 'f list \<Rightarrow> panic + 'f list" where
  "addTokens F i [] avg = Inr avg"
| "addTokens F i (v # tokens) avg =
     (if i < length avg
      then addTokens F (Suc i) tokens
             (avg[i := (if fle F (fzero F) v then fadd F (avg ! i) v else fsub F (avg ! i) v)])
      else Inl IndexOutOfRange)"

fun sumPrices :: "'f float_ops \<Rightarrow> 'f OraclePriceRecord list \<Rightarrow> 'f list \<Rightarrow> panic + 'f list" where
  "sumPrices F [] avg = Inr avg"
| "sumPrices F (opr # list) avg =
     (case addTokens F 0 (Tokens opr) avg of
        Inl e \<Rightarrow> Inl e
      | Inr avg' \<Rightarrow> sumPrices F list avg')"

text \<open>\<open>nAssets\<close> is \<open>len(common.AllAssets)\<close>, the length of the asset registry.\<close>

definition Avg :: "'f float_ops \<Rightarrow> nat \<Rightarrow> 'f OraclePriceRecord list \<Rightarrow> panic + 'f list" where
  "Avg F nAssets list =
     (case sumPrices F list (replicate nAssets (fzero F)) of
        Inl e \<Rightarrow> Inl e
      | Inr avg \<Rightarrow> Inr (map (\<lambda>a. fdiv F a (fof_nat F (length list))) avg))"

fun gradeTokens :: "'f float_ops \<Rightarrow> 'f list \<Rightarrow> nat \<Rightarrow> 'f list \<Rightarrow> 'f \<Rightarrow> panic + 'f" where
  "gradeTokens F avg i [] g = Inr g"
| "gradeTokens F avg i (v # tokens) g =
     (if i < length avg
      then (if flt F (fzero F) (avg ! i)
            then (let d = fdiv F (fsub F v (avg ! i)) (avg ! i)
                  in gradeTokens F avg (Suc i) tokens
                       (fadd F g (fmul F (fmul F (fmul F d d) d) d)))
            else gradeTokens F avg (Suc i) tokens g)
      else Inl IndexOutOfRange)"

text \<open>\<open>CalculateGrade\<close> writes the grade into the record; the model returns the record.\<close>

definition CalculateGrade ::
  "'f float_ops \<Rightarrow> 'f list \<Rightarrow> 'f OraclePriceRecord \<Rightarrow> panic + 'f OraclePriceRecord" where
  "CalculateGrade F avg opr =
     (case gradeTokens F avg 0 (Tokens opr) (fzero F) of
        Inl e \<Rightarrow> Inl e
      | Inr g \<Rightarrow> Inr (opr\<lparr>Grade := g\<rparr>))"

subsection \<open>RemoveDuplicateSubmissions and filterDuplicates\<close>

text \<open>
  Both functions run the same loop: \<open>added\<close> is the \<open>map[string]bool\<close>, in which a
  missing key reads as false, \<open>nlist\<close> the list built so far, and \<open>key v\<close> the string
  \<open>string(append(v.Nonce, v.OPRHash...))\<close>. On byte lists, which have no spare
  capacity, the \<open>append\<close> allocates and writes to no record; \<open>dedupLoopAt\<close> below is
  the loop on slices that may have spare capacity.
\<close>

fun dedupLoop ::
  "('a \<Rightarrow> byte list) \<Rightarrow> (byte list \<rightharpoonup> bool) \<Rightarrow> 'a list \<Rightarrow> 'a list \<Rightarrow> 'a list" where
  "dedupLoop key added [] nlist = nlist"
| "dedupLoop key added (v # list) nlist =
     (if added (key v) = Some True
      then dedupLoop key added list nlist
      else dedupLoop key (added(key v \<mapsto> True)) list (nlist @ [v]))"

definition identity :: "'f OraclePriceRecord \<Rightarrow> byte list" where
  "identity v = Nonce v @ OPRHash v"

definition RemoveDuplicateSubmissions ::
  "'f OraclePriceRecord list \<Rightarrow> 'f OraclePriceRecord list" where
  "RemoveDuplicateSubmissions list = dedupLoop identity Map.empty list []"

subsection \<open>GradeMinimum and GradeBlock\<close>

text \<open>
  \<open>opr.ComputeDifficulty\<close> is a method of the record whose code is not in grading.go:
  the functions that call it take it as the parameter \<open>cd\<close>.

  The first loop of \<open>GradeMinimum\<close>, over the rest of \<open>sortedList\<close>, with the \<open>top50\<close>
  collected so far. The result of the function holds only the records appended to
  \<open>top50\<close>, so the model keeps the write to \<open>opr.Difficulty\<close> for those.
\<close>

fun findTop50 ::
  "('f OraclePriceRecord \<Rightarrow> byte list \<Rightarrow> panic + uint64) \<Rightarrow> 'f OraclePriceRecord list
     \<Rightarrow> 'f OraclePriceRecord list \<Rightarrow> panic + 'f OraclePriceRecord list" where
  "findTop50 cd [] top50 = Inr top50"
| "findTop50 cd (opr # rest) top50 =
     (case cd opr (Nonce opr) of
        Inl e \<Rightarrow> Inl e
      | Inr d \<Rightarrow>
          (case Uint64 (SelfReportedDifficulty opr) of
             Inl e \<Rightarrow> Inl e
           | Inr f \<Rightarrow>
               if f \<noteq> d then findTop50 cd rest top50
               else if length (top50 @ [opr\<lparr>Difficulty := d\<rparr>]) = 50
                    then Inr (top50 @ [opr\<lparr>Difficulty := d\<rparr>])
                    else findTop50 cd rest (top50 @ [opr\<lparr>Difficulty := d\<rparr>])))"

text \<open>
  Modelled from the spec: \<open>ComputeDifficulty\<close>, for running the model. The
  specification gives it as the first 8 bytes, read big-endian, of the hash of
  \<open>record_hash ++ nonce\<close>. \<open>lx\<close> is the external hash primitive.
\<close>

definition ComputeDifficulty ::
  "(byte list \<Rightarrow> byte list) \<Rightarrow> 'f OraclePriceRecord \<Rightarrow> byte list \<Rightarrow> panic + uint64" where
  "ComputeDifficulty lx opr nonce = Uint64 (lx (OPRHash opr @ nonce))"

text \<open>The loop \<open>for j := 0; j < i; j++ { CalculateGrade(avg, top50[j]) }\<close>.\<close>

fun gradeAll ::
  "'f float_ops \<Rightarrow> 'f list \<Rightarrow> 'f OraclePriceRecord list \<Rightarrow> panic + 'f OraclePriceRecord list" where
  "gradeAll F avg [] = Inr []"
| "gradeAll F avg (opr # list) =
     (case CalculateGrade F avg opr of
        Inl e \<Rightarrow> Inl e
      | Inr opr' \<Rightarrow>
          (case gradeAll F avg list of
             Inl e \<Rightarrow> Inl e
           | Inr list' \<Rightarrow> Inr (opr' # list')))"

text \<open>The two stable sorts that end every pass: by difficulty descending, then by grade.\<close>

definition rerank :: "'f float_ops \<Rightarrow> 'f OraclePriceRecord list \<Rightarrow> 'f OraclePriceRecord list" where
  "rerank F list =
     SliceStable (\<lambda>a b. flt F (Grade a) (Grade b))
       (SliceStable (\<lambda>a b. Difficulty a > Difficulty b) list)"

text \<open>One pass of the grading loop, on the first \<open>i\<close> records of \<open>top50\<close>.\<close>

definition gradePass ::
  "'f float_ops \<Rightarrow> nat \<Rightarrow> nat \<Rightarrow> 'f OraclePriceRecord list \<Rightarrow> panic + 'f OraclePriceRecord list" where
  "gradePass F nAssets i top50 =
     (case Avg F nAssets (take i top50) of
        Inl e \<Rightarrow> Inl e
      | Inr avg \<Rightarrow>
          (case gradeAll F avg (take i top50) of
             Inl e \<Rightarrow> Inl e
           | Inr gs \<Rightarrow> Inr (rerank F gs @ drop i top50)))"

text \<open>The loop \<open>for i := len(top50); i >= 10; i--\<close>, from \<open>i\<close>.\<close>

fun narrow ::
  "'f float_ops \<Rightarrow> nat \<Rightarrow> nat \<Rightarrow> 'f OraclePriceRecord list \<Rightarrow> panic + 'f OraclePriceRecord list" where
  "narrow F nAssets i top50 =
     (if 10 \<le> i
      then (case gradePass F nAssets i top50 of
              Inl e \<Rightarrow> Inl e
            | Inr top50' \<Rightarrow> narrow F nAssets (i - 1) top50')
      else Inr top50)"

declare narrow.simps [simp del]

text \<open>A returned slice is \<open>None\<close> when it is nil.\<close>

definition GradeMinimum ::
  "'f float_ops \<Rightarrow> ('f OraclePriceRecord \<Rightarrow> byte list \<Rightarrow> panic + uint64) \<Rightarrow> nat
     \<Rightarrow> 'f OraclePriceRecord list \<Rightarrow> panic + 'f OraclePriceRecord list option" where
  "GradeMinimum F cd nAssets sortedList =
     (if length (RemoveDuplicateSubmissions sortedList) < 10 then Inr None
      else (case findTop50 cd sortedList [] of
              Inl e \<Rightarrow> Inl e
            | Inr top50 \<Rightarrow>
                (case narrow F nAssets (length top50) top50 of
                   Inl e \<Rightarrow> Inl e
                 | Inr graded \<Rightarrow> Inr (Some graded))))"

text \<open>
  \<open>GradeBlock\<close> returns two slices that share their records: the graded top 50 and the
  whole list sorted by difficulty. The model gives the first; the second is nil exactly
  when the first is.
\<close>

definition GradeBlock ::
  "'f float_ops \<Rightarrow> nat \<Rightarrow> 'f OraclePriceRecord list \<Rightarrow> panic + 'f OraclePriceRecord list option" where
  "GradeBlock F nAssets list0 =
     (if length (RemoveDuplicateSubmissions list0) < 10 then Inr None
      else (let list = SliceStable (\<lambda>a b. Difficulty a > Difficulty b)
                         (RemoveDuplicateSubmissions list0);
                topDifficulty = (if 50 < length list then take 50 list else list)
            in case narrow F nAssets (length topDifficulty) topDifficulty of
                 Inl e \<Rightarrow> Inl e
               | Inr graded \<Rightarrow> Inr (Some graded)))"

subsection \<open>VerifyWinners\<close>

definition elems :: "'a list option \<Rightarrow> 'a list" where
  "elems s = (case s of None \<Rightarrow> [] | Some xs \<Rightarrow> xs)"

text \<open>
  The loop over \<open>opr.WinPreviousOPR\<close> from index \<open>i\<close>. \<open>prev\<close> is the slice of the
  winners of the previous height, \<open>None\<close> when nil. \<open>prev[i]\<close> panics beyond the
  length of the slice. \<open>EntryHash[:8]\<close> is checked against the capacity, which for a
  byte list is its length: it panics on fewer than 8 bytes.
\<close>

fun verifyLoop ::
  "nat \<Rightarrow> string list \<Rightarrow> 'f OraclePriceRecord list option \<Rightarrow> panic + bool" where
  "verifyLoop i [] prev = Inr True"
| "verifyLoop i (w # rest) prev =
     (if prev = None \<and> w \<noteq> [] then Inr False
      else if 0 < length (elems prev)
      then (if i < length (elems prev)
            then (if length (EntryHash (elems prev ! i)) < 8 then Inl SliceBoundsOutOfRange
                  else if w \<noteq> EncodeToString (take 8 (EntryHash (elems prev ! i)))
                  then Inr False
                  else verifyLoop (Suc i) rest prev)
            else Inl IndexOutOfRange)
      else verifyLoop (Suc i) rest prev)"

definition VerifyWinners ::
  "'f OraclePriceRecord \<Rightarrow> 'f OraclePriceRecord list option \<Rightarrow> panic + bool" where
  "VerifyWinners opr prev = verifyLoop 0 (WinPreviousOPR opr) prev"

definition shortHash :: "'f OraclePriceRecord \<Rightarrow> string" where
  "shortHash w = EncodeToString (take 8 (EntryHash w))"

subsection \<open>Package grader: baseGrader\<close>

text \<open>
  The fields of \<open>GradingOPR\<close> that the base grader reads; here the self-reported
  difficulty is a \<open>uint64\<close>.
\<close>

record GradingOPR =
  gNonce :: "byte list"
  gOPRHash :: "byte list"
  gSelfReportedDifficulty :: uint64

record baseGrader =
  oprs :: "GradingOPR list"
  winners :: "GradingOPR list"
  graded :: bool
  height :: int32
  prevWinners :: "string list"

text \<open>
  \<open>V1Block\<close> and \<open>V2Block\<close> are the two implementations of the interface \<open>Block\<close>;
  each embeds a \<open>baseGrader\<close>. \<open>new\<close> gives the zero value.
\<close>

datatype Block = V1Block baseGrader | V2Block baseGrader

definition zeroGrader :: baseGrader where
  "zeroGrader = \<lparr> oprs = [], winners = [], graded = False, height = 0, prevWinners = [] \<rparr>"

definition NewGrader :: "int \<Rightarrow> int32 \<Rightarrow> string list \<Rightarrow> panic + Block" where
  "NewGrader version h previousWinners =
     (if version = 1
      then Inr (V1Block (zeroGrader\<lparr>height := h, prevWinners := previousWinners\<rparr>))
      else if version = 2
      then Inr (V2Block (zeroGrader\<lparr>height := h, prevWinners := previousWinners\<rparr>))
      else Inl (PanicMsg ''invalid grader version''))"

fun base :: "Block \<Rightarrow> baseGrader" where
  "base (V1Block bg) = bg"
| "base (V2Block bg) = bg"

definition Count :: "baseGrader \<Rightarrow> nat" where
  "Count bg = length (oprs bg)"

definition GetPreviousWinners :: "baseGrader \<Rightarrow> string list" where
  "GetPreviousWinners bg = prevWinners bg"

definition Height :: "baseGrader \<Rightarrow> int32" where
  "Height bg = height bg"

definition gIdentity :: "GradingOPR \<Rightarrow> byte list" where
  "gIdentity v = gNonce v @ gOPRHash v"

definition filterDuplicates :: "baseGrader \<Rightarrow> baseGrader" where
  "filterDuplicates bg = bg\<lparr>oprs := dedupLoop gIdentity Map.empty (oprs bg) []\<rparr>"

text \<open>
  The loop of \<open>sortByDifficulty\<close> over the rest of \<open>bg.oprs\<close>, with the \<open>topX\<close> collected
  so far. \<open>lx\<close> is \<open>lx.Hash\<close> of the external package lxr30. On byte lists the
  \<open>append(o.OPRHash, o.Nonce...)\<close> allocates; \<open>topXLoopAt\<close> below is the loop on slices
  that may have spare capacity.
\<close>

fun topXLoop ::
  "(byte list \<Rightarrow> byte list) \<Rightarrow> int \<Rightarrow> GradingOPR list \<Rightarrow> GradingOPR list
     \<Rightarrow> panic + GradingOPR list" where
  "topXLoop lx limit [] topX = Inr topX"
| "topXLoop lx limit (o1 # rest) topX =
     (case Uint64 (lx (gOPRHash o1 @ gNonce o1)) of
        Inl e \<Rightarrow> Inl e
      | Inr diff \<Rightarrow>
          if diff \<noteq> gSelfReportedDifficulty o1 then topXLoop lx limit rest topX
          else if limit \<le> int (length (topX @ [o1])) then Inr (topX @ [o1])
          else topXLoop lx limit rest (topX @ [o1]))"

text \<open>
  The comparison function handed to \<open>sort.SliceStable\<close> reads \<open>bg.oprs[i]\<close> on both
  sides, as the source does.
\<close>

definition sortByDifficulty ::
  "(byte list \<Rightarrow> byte list) \<Rightarrow> int \<Rightarrow> baseGrader \<Rightarrow> panic + baseGrader" where
  "sortByDifficulty lx limit bg =
     (case topXLoop lx limit
             (SliceStable (\<lambda>a b. gSelfReportedDifficulty a > gSelfReportedDifficulty a) (oprs bg))
             [] of
        Inl e \<Rightarrow> Inl e
      | Inr topX \<Rightarrow> Inr (bg\<lparr>oprs := topX\<rparr>))"

subsection \<open>Slices on shared buffers\<close>

text \<open>
  A byte slice in general: a window of \<open>sLen\<close> bytes at \<open>sPtr\<close> in a memory, with
  \<open>sCap - sLen\<close> more bytes of its backing array behind it. In Go \<open>buf[i:j]\<close> has the
  capacity \<open>cap(buf) - i\<close>, so two fields cut from one buffer are such slices, the
  first with the second in its spare capacity. The memory holds the backing arrays side
  by side.
\<close>

type_synonym memory = "byte list"

record slice =
  sPtr :: nat
  sLen :: nat
  sCap :: nat

definition bytesOf :: "memory \<Rightarrow> slice \<Rightarrow> byte list" where
  "bytesOf m s = take (sLen s) (drop (sPtr s) m)"

text \<open>
  The memory after \<open>append(s, bs...)\<close>: when the bytes fit the capacity of \<open>s\<close> they
  are written behind its last byte; otherwise a new array is allocated and the memory
  stays as it is.
\<close>

definition appendWrite :: "memory \<Rightarrow> slice \<Rightarrow> byte list \<Rightarrow> memory" where
  "appendWrite m s bs =
     (if sLen s + length bs \<le> sCap s
      then take (sPtr s + sLen s) m @ bs @ drop (sPtr s + sLen s + length bs) m
      else m)"

text \<open>
  The fields of a record that the deduplicator and \<open>sortByDifficulty\<close> read, the nonce
  and the record hash as slices on the memory.
\<close>

record recordAt =
  NonceAt :: slice
  OPRHashAt :: slice
  ClaimedAt :: uint64

definition identityAt :: "memory \<Rightarrow> recordAt \<Rightarrow> byte list" where
  "identityAt m v = bytesOf m (NonceAt v) @ bytesOf m (OPRHashAt v)"

definition valueAt :: "memory \<Rightarrow> recordAt \<Rightarrow> GradingOPR" where
  "valueAt m v = \<lparr> gNonce = bytesOf m (NonceAt v), gOPRHash = bytesOf m (OPRHashAt v),
                   gSelfReportedDifficulty = ClaimedAt v \<rparr>"

text \<open>
  The loop of \<open>RemoveDuplicateSubmissions\<close> and of \<open>filterDuplicates\<close> on such records:
  the key is the string of the bytes read, and \<open>append(v.Nonce, v.OPRHash...)\<close> leaves
  the memory as \<open>appendWrite\<close> says. The functions return the list and the memory.
\<close>

fun dedupLoopAt ::
  "memory \<Rightarrow> (byte list \<rightharpoonup> bool) \<Rightarrow> recordAt list \<Rightarrow> recordAt list \<Rightarrow> recordAt list \<times> memory" where
  "dedupLoopAt m added [] nlist = (nlist, m)"
| "dedupLoopAt m added (v # list) nlist =
     (if added (bytesOf m (NonceAt v) @ bytesOf m (OPRHashAt v)) = Some True
      then dedupLoopAt (appendWrite m (NonceAt v) (bytesOf m (OPRHashAt v))) added list nlist
      else dedupLoopAt (appendWrite m (NonceAt v) (bytesOf m (OPRHashAt v)))
             (added(bytesOf m (NonceAt v) @ bytesOf m (OPRHashAt v) \<mapsto> True)) list (nlist @ [v]))"

definition RemoveDuplicateSubmissionsAt :: "memory \<Rightarrow> recordAt list \<Rightarrow> recordAt list \<times> memory" where
  "RemoveDuplicateSubmissionsAt m list = dedupLoopAt m Map.empty list []"

definition filterDuplicatesAt :: "memory \<Rightarrow> recordAt list \<Rightarrow> recordAt list \<times> memory" where
  "filterDuplicatesAt m rs = dedupLoopAt m Map.empty rs []"

text \<open>
  The loop of \<open>sortByDifficulty\<close> on such records, with the write of
  \<open>append(o.OPRHash, o.Nonce...)\<close>, and the function with its sort.
\<close>

fun topXLoopAt ::
  "(byte list \<Rightarrow> byte list) \<Rightarrow> int \<Rightarrow> memory \<Rightarrow> recordAt list \<Rightarrow> recordAt list
     \<Rightarrow> panic + recordAt list \<times> memory" where
  "topXLoopAt lx limit m [] topX = Inr (topX, m)"
| "topXLoopAt lx limit m (o1 # rest) topX =
     (case Uint64 (lx (bytesOf m (OPRHashAt o1) @ bytesOf m (NonceAt o1))) of
        Inl e \<Rightarrow> Inl e
      | Inr diff \<Rightarrow>
          if diff \<noteq> ClaimedAt o1
          then topXLoopAt lx limit (appendWrite m (OPRHashAt o1) (bytesOf m (NonceAt o1))) rest topX
          else if limit \<le> int (length (topX @ [o1]))
          then Inr (topX @ [o1], appendWrite m (OPRHashAt o1) (bytesOf m (NonceAt o1)))
          else topXLoopAt lx limit (appendWrite m (OPRHashAt o1) (bytesOf m (NonceAt o1))) rest
                 (topX @ [o1]))"

definition sortByDifficultyAt ::
  "(byte list \<Rightarrow> byte list) \<Rightarrow> int \<Rightarrow> memory \<Rightarrow> recordAt list \<Rightarrow> panic + recordAt list \<times> memory" where
  "sortByDifficultyAt lx limit m rs =
     topXLoopAt lx limit m (SliceStable (\<lambda>a b. ClaimedAt a > ClaimedAt a) rs) []"

subsection \<open>float64 values that are not numbers\<close>

text \<open>
  The reals with the two infinities and NaN, and the arithmetic and comparisons of
  IEEE 754 on them without rounding and without the sign of zero. It agrees with
  float64 wherever every finite intermediate result is exactly representable; it is
  used only to run the model on such inputs.
\<close>

datatype xreal = Num real | PosInf | NegInf | NaN

fun xneg :: "xreal \<Rightarrow> xreal" where
  "xneg (Num x) = Num (- x)"
| "xneg PosInf = NegInf"
| "xneg NegInf = PosInf"
| "xneg NaN = NaN"

fun xadd :: "xreal \<Rightarrow> xreal \<Rightarrow> xreal" where
  "xadd NaN b = NaN"
| "xadd a NaN = NaN"
| "xadd (Num x) (Num y) = Num (x + y)"
| "xadd PosInf NegInf = NaN"
| "xadd NegInf PosInf = NaN"
| "xadd PosInf b = PosInf"
| "xadd a PosInf = PosInf"
| "xadd NegInf b = NegInf"
| "xadd a NegInf = NegInf"

definition xsub :: "xreal \<Rightarrow> xreal \<Rightarrow> xreal" where
  "xsub a b = xadd a (xneg b)"

fun xmul :: "xreal \<Rightarrow> xreal \<Rightarrow> xreal" where
  "xmul NaN b = NaN"
| "xmul a NaN = NaN"
| "xmul (Num x) (Num y) = Num (x * y)"
| "xmul (Num x) PosInf = (if x = 0 then NaN else if 0 < x then PosInf else NegInf)"
| "xmul (Num x) NegInf = (if x = 0 then NaN else if 0 < x then NegInf else PosInf)"
| "xmul PosInf (Num y) = (if y = 0 then NaN else if 0 < y then PosInf else NegInf)"
| "xmul NegInf (Num y) = (if y = 0 then NaN else if 0 < y then NegInf else PosInf)"
| "xmul PosInf PosInf = PosInf"
| "xmul NegInf NegInf = PosInf"
| "xmul PosInf NegInf = NegInf"
| "xmul NegInf PosInf = NegInf"

fun xdiv :: "xreal \<Rightarrow> xreal \<Rightarrow> xreal" where
  "xdiv NaN b = NaN"
| "xdiv a NaN = NaN"
| "xdiv (Num x) (Num y) =
     (if y \<noteq> 0 then Num (x / y) else if x = 0 then NaN else if 0 < x then PosInf else NegInf)"
| "xdiv (Num x) b = Num 0"
| "xdiv PosInf (Num y) = (if 0 \<le> y then PosInf else NegInf)"
| "xdiv NegInf (Num y) = (if 0 \<le> y then NegInf else PosInf)"
| "xdiv a b = NaN"

fun xlt :: "xreal \<Rightarrow> xreal \<Rightarrow> bool" where
  "xlt NaN b = False"
| "xlt a NaN = False"
| "xlt (Num x) (Num y) = (x < y)"
| "xlt a NegInf = False"
| "xlt PosInf b = False"
| "xlt NegInf b = True"
| "xlt a PosInf = True"

fun xle :: "xreal \<Rightarrow> xreal \<Rightarrow> bool" where
  "xle NaN b = False"
| "xle a NaN = False"
| "xle (Num x) (Num y) = (x \<le> y)"
| "xle NegInf b = True"
| "xle a PosInf = True"
| "xle a b = False"

definition extended_ops :: "xreal float_ops" where
  "extended_ops = \<lparr> fzero = Num 0, fof_nat = (\<lambda>n. Num (real n)), fadd = xadd, fsub = xsub,
                     fmul = xmul, fdiv = xdiv, fle = xle, flt = xlt \<rparr>"

subsection \<open>Honest records\<close>

text \<open>
  A record of the grader is honest when the first 8 bytes of the hash of its record hash
  followed by its nonce, read big-endian, are its self-reported difficulty.
\<close>

definition gHonest :: "(byte list \<Rightarrow> byte list) \<Rightarrow> GradingOPR \<Rightarrow> bool" where
  "gHonest lx o1 \<longleftrightarrow> Uint64 (lx (gOPRHash o1 @ gNonce o1)) = Inr (gSelfReportedDifficulty o1)"

subsection \<open>Orders\<close>

text \<open>
  What a comparison function must satisfy on the values in \<open>A\<close> for a sort by it to
  have a sorted result: it is asymmetric, and "not less" is transitive. Go's \<open><\<close> on
  float64 is such on every set of values without NaN.
\<close>

definition strictWeakOn :: "'a set \<Rightarrow> ('a \<Rightarrow> 'a \<Rightarrow> bool) \<Rightarrow> bool" where
  "strictWeakOn A lt \<longleftrightarrow>
     (\<forall>a\<in>A. \<forall>b\<in>A. lt a b \<longrightarrow> \<not> lt b a)
     \<and> (\<forall>a\<in>A. \<forall>b\<in>A. \<forall>c\<in>A. \<not> lt a b \<longrightarrow> \<not> lt b c \<longrightarrow> \<not> lt a c)"


subsection \<open>The deduplicator as the specification words it\<close>

text \<open>
  The subsequence of the records that are the first of their identity key: the record
  at index \<open>i\<close> stays iff no record at a smaller index has its key.
\<close>

definition firstOccurrences :: "('a \<Rightarrow> 'k) \<Rightarrow> 'a list \<Rightarrow> 'a list" where
  "firstOccurrences key xs =
     map (\<lambda>i. xs ! i) (filter (\<lambda>i. \<forall>j<i. key (xs ! j) \<noteq> key (xs ! i)) [0..<length xs])"

text \<open>The loop of the deduplicator as a function of the set \<open>S\<close> of keys seen so far.\<close>

fun dedupFrom :: "('a \<Rightarrow> 'k) \<Rightarrow> 'k set \<Rightarrow> 'a list \<Rightarrow> 'a list" where
  "dedupFrom key S [] = []"
| "dedupFrom key S (x # xs) =
     (if key x \<in> S then dedupFrom key S xs else x # dedupFrom key (insert (key x) S) xs)"

subsection \<open>Inputs for running the model\<close>

text \<open>
  A stand-in for the hash primitive: the input, padded on the left to 8 bytes. A record
  with nonce \<open>[n]\<close> and record hash \<open>[k]\<close> then has the difficulty \<open>256 * k + n\<close>.
\<close>

definition toyHash :: "byte list \<Rightarrow> byte list" where
  "toyHash bs = replicate (8 - length bs) 0 @ bs"

definition mkRecord :: "byte \<Rightarrow> byte \<Rightarrow> byte list \<Rightarrow> real OraclePriceRecord" where
  "mkRecord n k claimed =
     \<lparr> Nonce = [n], OPRHash = [k], SelfReportedDifficulty = claimed, Difficulty = 0,
       Grade = 0, Tokens = [1], WinPreviousOPR = [], EntryHash = [k, k, k, k, k, k, k, k] \<rparr>"

definition honestRecord :: "byte \<Rightarrow> byte \<Rightarrow> real OraclePriceRecord" where
  "honestRecord n k = mkRecord n k [0, 0, 0, 0, 0, 0, k, n]"

definition mkGradingOPR :: "byte \<Rightarrow> byte \<Rightarrow> uint64 \<Rightarrow> GradingOPR" where
  "mkGradingOPR n k claimed = \<lparr> gNonce = [n], gOPRHash = [k], gSelfReportedDifficulty = claimed \<rparr>"

text \<open>A record with one price \<open>p\<close>, difficulty \<open>d\<close> and grade \<open>g\<close>.\<close>

definition pricedRecord :: "byte \<Rightarrow> uint64 \<Rightarrow> real \<Rightarrow> real \<Rightarrow> real OraclePriceRecord" where
  "pricedRecord k d p g = (honestRecord k k)\<lparr>Difficulty := d, Grade := g, Tokens := [p]\<rparr>"

text \<open>A record that names the winners \<open>refs\<close> of the previous height.\<close>

definition referringRecord :: "string list \<Rightarrow> real OraclePriceRecord" where
  "referringRecord refs = (honestRecord 1 1)\<lparr>WinPreviousOPR := refs\<rparr>"

text \<open>A hash that returns no bytes on one input, to see which records are hashed.\<close>

definition partialHash :: "byte list \<Rightarrow> byte list" where
  "partialHash bs = (if bs = [9, 9] then [] else toyHash bs)"

text \<open>An honest record after \<open>GradeMinimum\<close> has written its difficulty.\<close>

definition verifiedRecord :: "byte \<Rightarrow> byte \<Rightarrow> real OraclePriceRecord" where
  "verifiedRecord n k = (honestRecord n k)\<lparr>Difficulty := ucast n OR push_bit 8 (ucast k)\<rparr>"

text \<open>
  Ten submissions with ten identity keys, in descending order of self-reported
  difficulty; the first misreports its difficulty, the other nine are honest.
\<close>

definition nineHonest :: "real OraclePriceRecord list" where
  "nineHonest =
     [mkRecord 1 10 [255, 255, 255, 255, 255, 255, 255, 255],
      honestRecord 1 9, honestRecord 1 8, honestRecord 1 7, honestRecord 1 6, honestRecord 1 5,
      honestRecord 1 4, honestRecord 1 3, honestRecord 1 2, honestRecord 1 1]"

text \<open>
  Eleven honest submissions in descending order of self-reported difficulty, the last
  two with the same nonce and record hash.
\<close>

definition tenHonestOneTwice :: "real OraclePriceRecord list" where
  "tenHonestOneTwice =
     [honestRecord 1 10, honestRecord 1 9, honestRecord 1 8, honestRecord 1 7, honestRecord 1 6,
      honestRecord 1 5, honestRecord 1 4, honestRecord 1 3, honestRecord 1 2, honestRecord 1 1,
      honestRecord 1 1]"

definition elevenVerified :: "real OraclePriceRecord list" where
  "elevenVerified =
     [verifiedRecord 1 10, verifiedRecord 1 9, verifiedRecord 1 8, verifiedRecord 1 7,
      verifiedRecord 1 6, verifiedRecord 1 5, verifiedRecord 1 4, verifiedRecord 1 3,
      verifiedRecord 1 2, verifiedRecord 1 1, verifiedRecord 1 1]"

text \<open>
  Fifty-one honest records of the grader with fifty-one identity keys, in ascending
  order of difficulty: the record with nonce \<open>[n]\<close> has the difficulty \<open>256 + n\<close>.
\<close>

definition honestGradingOPR :: "byte \<Rightarrow> GradingOPR" where
  "honestGradingOPR n = mkGradingOPR n 1 (ucast n OR 256)"

definition ascending51 :: "GradingOPR list" where
  "ascending51 = map honestGradingOPR
     [1, 2, 3, 4, 5, 6, 7, 8, 9, 10, 11, 12, 13, 14, 15, 16, 17, 18, 19, 20, 21, 22, 23, 24, 25,
      26, 27, 28, 29, 30, 31, 32, 33, 34, 35, 36, 37, 38, 39, 40, 41, 42, 43, 44, 45, 46, 47, 48,
      49, 50, 51]"


text \<open>
  Three records on the memory \<open>[1, 2, 7, 9, 7, 9]\<close>, with the identity keys \<open>[7, 9]\<close>,
  \<open>[1, 7]\<close> and \<open>[2, 9]\<close>. The nonces of the second and the third are cut from one
  buffer of two bytes, \<open>buf[0:1]\<close> and \<open>buf[1:2]\<close>, so the nonce of the second has the
  nonce of the third in its spare capacity.
\<close>

definition sharedNonces :: "recordAt list" where
  "sharedNonces =
     [\<lparr> NonceAt = \<lparr>sPtr = 4, sLen = 1, sCap = 1\<rparr>, OPRHashAt = \<lparr>sPtr = 5, sLen = 1, sCap = 1\<rparr>,
        ClaimedAt = 0 \<rparr>,
      \<lparr> NonceAt = \<lparr>sPtr = 0, sLen = 1, sCap = 2\<rparr>, OPRHashAt = \<lparr>sPtr = 2, sLen = 1, sCap = 1\<rparr>,
        ClaimedAt = 0 \<rparr>,
      \<lparr> NonceAt = \<lparr>sPtr = 1, sLen = 1, sCap = 1\<rparr>, OPRHashAt = \<lparr>sPtr = 3, sLen = 1, sCap = 1\<rparr>,
        ClaimedAt = 0 \<rparr>]"

text \<open>
  Two records on the memory \<open>[2, 1, 5, 6]\<close>, in descending order of self-reported
  difficulty and both honest under \<open>toyHash\<close>: record hash \<open>[2]\<close> and nonce \<open>[5]\<close> with
  the difficulty 517, record hash \<open>[1]\<close> and nonce \<open>[6]\<close> with the difficulty 262. The
  record hashes are cut from one buffer of two bytes, \<open>buf[0:1]\<close> and \<open>buf[1:2]\<close>.
\<close>

definition sharedHashes :: "recordAt list" where
  "sharedHashes =
     [\<lparr> NonceAt = \<lparr>sPtr = 2, sLen = 1, sCap = 1\<rparr>, OPRHashAt = \<lparr>sPtr = 0, sLen = 1, sCap = 2\<rparr>,
        ClaimedAt = 517 \<rparr>,
      \<lparr> NonceAt = \<lparr>sPtr = 3, sLen = 1, sCap = 1\<rparr>, OPRHashAt = \<lparr>sPtr = 1, sLen = 1, sCap = 1\<rparr>,
        ClaimedAt = 262 \<rparr>]"

section \<open>Properties\<close>

subsection \<open>The deduplicator\<close>

lemma dedupLoop_dedupFrom:
  "dedupLoop key added xs nlist = nlist @ dedupFrom key {k. added k = Some True} xs"
proof (induction xs arbitrary: added nlist)
  case Nil
  show ?case by simp
next
  case (Cons v xs)
  have upd: "{k. (added(key v \<mapsto> True)) k = Some True} = insert (key v) {k. added k = Some True}"
    by auto
  show ?case
  proof (cases "added (key v) = Some True")
    case True
    then show ?thesis by (simp add: Cons.IH)
  next
    case False
    have "dedupLoop key added (v # xs) nlist = dedupLoop key (added(key v \<mapsto> True)) xs (nlist @ [v])"
      using False by simp
    also have "\<dots> = (nlist @ [v]) @ dedupFrom key (insert (key v) {k. added k = Some True}) xs"
      by (simp only: Cons.IH upd)
    finally show ?thesis using False by simp
  qed
qed

lemma dedupLoop_empty: "dedupLoop key Map.empty xs [] = dedupFrom key {} xs"
  by (simp add: dedupLoop_dedupFrom)

lemma set_dedupFrom: "key ` set (dedupFrom key S xs) = key ` set xs - S"
  by (induction xs arbitrary: S) auto

lemma dedupFrom_snoc:
  "dedupFrom key S (xs @ [x]) =
     dedupFrom key S xs @ (if key x \<in> S \<union> key ` set xs then [] else [x])"
  by (induction xs arbitrary: S) auto

lemma firstOccurrences_snoc:
  "firstOccurrences key (xs @ [x]) =
     firstOccurrences key xs @ (if key x \<in> key ` set xs then [] else [x])"
proof -
  define P where "P = (\<lambda>i. \<forall>j<i. key (xs ! j) \<noteq> key (xs ! i))"
  define Q where "Q = (\<lambda>i. \<forall>j<i. key ((xs @ [x]) ! j) \<noteq> key ((xs @ [x]) ! i))"
  have old: "Q i = P i" if "i < length xs" for i
    using that by (simp add: P_def Q_def nth_append)
  have f: "filter Q [0..<length xs] = filter P [0..<length xs]"
    by (rule filter_cong) (simp_all add: old)
  have m: "map (\<lambda>i. (xs @ [x]) ! i) (filter P [0..<length xs])
         = map (\<lambda>i. xs ! i) (filter P [0..<length xs])"
    by (rule map_cong) (simp_all add: nth_append)
  have new: "Q (length xs) = (key x \<notin> key ` set xs)"
  proof -
    have "Q (length xs) = (\<forall>j<length xs. key (xs ! j) \<noteq> key x)"
      by (simp add: Q_def nth_append)
    also have "\<dots> = (\<forall>y\<in>set xs. key y \<noteq> key x)"
      by (simp add: all_set_conv_all_nth)
    also have "\<dots> = (key x \<notin> key ` set xs)"
      by (metis imageE imageI)
    finally show ?thesis .
  qed
  have "firstOccurrences key (xs @ [x])
      = map (\<lambda>i. (xs @ [x]) ! i) (filter Q ([0..<length xs] @ [length xs]))"
    by (simp add: firstOccurrences_def Q_def)
  also have "\<dots> = map (\<lambda>i. (xs @ [x]) ! i) (filter P [0..<length xs])
                  @ (if Q (length xs) then [x] else [])"
    by (simp add: f)
  also have "\<dots> = firstOccurrences key xs @ (if key x \<in> key ` set xs then [] else [x])"
    unfolding m new by (simp add: firstOccurrences_def P_def)
  finally show ?thesis .
qed

lemma dedupFrom_firstOccurrences: "dedupFrom key {} xs = firstOccurrences key xs"
proof (induction xs rule: rev_induct)
  case Nil
  show ?case by (simp add: firstOccurrences_def)
next
  case (snoc x xs)
  then show ?case by (simp add: dedupFrom_snoc firstOccurrences_snoc)
qed

lemma subseq_dedupFrom: "subseq (dedupFrom key S xs) xs"
  by (induction xs arbitrary: S) auto

lemma distinct_dedupFrom: "distinct (map key (dedupFrom key S xs))"
  by (induction xs arbitrary: S) (auto simp: set_dedupFrom)

lemma dedupFrom_idem: "dedupFrom key S (dedupFrom key S xs) = dedupFrom key S xs"
  by (induction xs arbitrary: S) auto

text \<open>
  On records whose slices have no spare capacity \<open>RemoveDuplicateSubmissions\<close> returns
  the records that are the first of their identity key (nonce bytes followed by
  record-hash bytes), in their order: a subsequence of the input in which no key
  repeats. Applied to its own output it returns that output. \<open>filterDuplicates\<close> of the
  grader module does the same to \<open>bg.oprs\<close>.
\<close>

lemma dedup_contract:
  "RemoveDuplicateSubmissions list = firstOccurrences identity list
   \<and> subseq (RemoveDuplicateSubmissions list) list
   \<and> distinct (map identity (RemoveDuplicateSubmissions list))
   \<and> RemoveDuplicateSubmissions (RemoveDuplicateSubmissions list) = RemoveDuplicateSubmissions list
   \<and> oprs (filterDuplicates bg) = firstOccurrences gIdentity (oprs bg)
   \<and> filterDuplicates (filterDuplicates bg) = filterDuplicates bg"
  by (simp add: RemoveDuplicateSubmissions_def filterDuplicates_def dedupLoop_empty
      dedupFrom_firstOccurrences [symmetric] subseq_dedupFrom distinct_dedupFrom dedupFrom_idem)

lemma dedup_contract_example:
  "RemoveDuplicateSubmissions [honestRecord 1 1, honestRecord 2 1, honestRecord 1 1]
     = [honestRecord 1 1, honestRecord 2 1]
   \<and> firstOccurrences identity [honestRecord 1 1, honestRecord 2 1, honestRecord 1 1]
     = [honestRecord 1 1, honestRecord 2 1]
   \<and> oprs (filterDuplicates (zeroGrader\<lparr>oprs := [mkGradingOPR 1 1 5, mkGradingOPR 1 1 7]\<rparr>))
     = [mkGradingOPR 1 1 5]"
  using dedup_contract [of "[honestRecord 1 1, honestRecord 2 1, honestRecord 1 1]"
      "zeroGrader\<lparr>oprs := [mkGradingOPR 1 1 5, mkGradingOPR 1 1 7]\<rparr>"]
  by (simp add: RemoveDuplicateSubmissions_def filterDuplicates_def identity_def gIdentity_def
      honestRecord_def mkRecord_def mkGradingOPR_def zeroGrader_def)

subsection \<open>The stable sorts\<close>

lemma mset_insertStable: "mset (insertStable lt x ys) = add_mset x (mset ys)"
  by (induction ys) auto


lemma SliceStable_Nil: "SliceStable lt [] = []"
  by (simp add: SliceStable_def)

lemma SliceStable_Cons: "SliceStable lt (x # xs) = insertStable lt x (SliceStable lt xs)"
  by (simp add: SliceStable_def)

lemma mset_SliceStable: "mset (SliceStable lt xs) = mset xs"
  by (induction xs) (simp_all add: SliceStable_Nil SliceStable_Cons mset_insertStable)


lemma length_SliceStable: "length (SliceStable lt xs) = length xs"
  by (metis mset_SliceStable size_mset)





lemma mset_rerank: "mset (rerank F list) = mset list"
  by (simp add: rerank_def mset_SliceStable)




subsection \<open>One pass of the grading loop\<close>






lemma xlt_asym: "xlt a b \<Longrightarrow> \<not> xlt b a"
  by (cases a; cases b) auto

lemma xlt_negtrans:
  "a \<noteq> NaN \<Longrightarrow> b \<noteq> NaN \<Longrightarrow> c \<noteq> NaN \<Longrightarrow> \<not> xlt a b \<Longrightarrow> \<not> xlt b c \<Longrightarrow> \<not> xlt a c"
  by (cases a; cases b; cases c) auto

text \<open>Without NaN the comparison is an order, so the hypothesis of the pass holds.\<close>

lemma strictWeakOn_extended: "NaN \<notin> A \<Longrightarrow> strictWeakOn A (flt extended_ops)"
  unfolding strictWeakOn_def extended_ops_def
  by (auto dest: xlt_asym) (metis xlt_negtrans)


subsection \<open>VerifyWinners\<close>

lemma verifyLoop_None: "verifyLoop i refs None = Inr (list_all (\<lambda>w. w = []) refs)"
  by (induction refs arbitrary: i) (simp_all add: elems_def)

lemma verifyLoop_Some:
  assumes long: "\<forall>w\<in>set ws. 8 \<le> length (EntryHash w)"
  shows "i + length refs \<le> length ws \<Longrightarrow> ws \<noteq> []
    \<Longrightarrow> verifyLoop i refs (Some ws)
        = Inr (refs = map shortHash (take (length refs) (drop i ws)))"
proof (induction refs arbitrary: i)
  case Nil
  show ?case by simp
next
  case (Cons r rest)
  have i: "i < length ws" using Cons.prems(1) by simp
  then have e: "8 \<le> length (EntryHash (ws ! i))" using long by simp
  have d: "drop i ws = ws ! i # drop (Suc i) ws"
    using i by (simp add: Cons_nth_drop_Suc)
  have IH: "verifyLoop (Suc i) rest (Some ws)
        = Inr (rest = map shortHash (take (length rest) (drop (Suc i) ws)))"
    using Cons.prems by (intro Cons.IH) simp_all
  have sh: "EncodeToString (take 8 (EntryHash (ws ! i))) = shortHash (ws ! i)"
    by (simp add: shortHash_def)
  show ?case
    using i e Cons.prems(2) by (auto simp: elems_def d IH sh)
qed

text \<open>
  C7, as the code has it. Against a nil list of winners \<open>VerifyWinners\<close> returns true iff
  every reference is the empty string. Against a list of winners that is not empty and
  has at least as many winners as the record has references (each entry hash of 8 bytes
  or more) it returns true iff every reference is the hex-encoded first 8 bytes of the
  entry hash of the winner at its position.
\<close>

theorem VerifyWinners_spec:
  "VerifyWinners opr None = Inr (list_all (\<lambda>w. w = []) (WinPreviousOPR opr))
   \<and> (ws \<noteq> [] \<and> length (WinPreviousOPR opr) \<le> length ws
        \<and> (\<forall>w\<in>set ws. 8 \<le> length (EntryHash w))
      \<longrightarrow> VerifyWinners opr (Some ws)
          = Inr (WinPreviousOPR opr = map shortHash (take (length (WinPreviousOPR opr)) ws)))"
  using verifyLoop_Some [of ws 0 "WinPreviousOPR opr"]
  by (simp add: VerifyWinners_def verifyLoop_None)

theorem VerifyWinners_spec_witness:
  "VerifyWinners (referringRecord [''abababababababab'']) None = Inr False
   \<and> VerifyWinners (referringRecord [''abababababababab'']) (Some [honestRecord 1 171]) = Inr True
   \<and> VerifyWinners (referringRecord [''abababababababac'']) (Some [honestRecord 1 171]) = Inr False"
  using VerifyWinners_spec [of "referringRecord [''abababababababab'']" "[honestRecord 1 171]"]
    VerifyWinners_spec [of "referringRecord [''abababababababac'']" "[honestRecord 1 171]"]
  by (simp add: referringRecord_def honestRecord_def mkRecord_def shortHash_def hextable_def)

text \<open>
  The claim as the specification words it fails where the lengths differ: a record with
  no reference passes against one winner, and a second reference with only one winner
  to compare it with is an index out of range.
\<close>

theorem VerifyWinners_length_counterexample:
  "VerifyWinners (referringRecord []) (Some [honestRecord 1 171]) = Inr True
   \<and> VerifyWinners (referringRecord [''abababababababab'', ''abababababababab''])
       (Some [honestRecord 1 171]) = Inl IndexOutOfRange"
  by (simp add: VerifyWinners_def referringRecord_def elems_def honestRecord_def mkRecord_def
      hextable_def)

subsection \<open>NewGrader\<close>

text \<open>
  C8, as the code has it. \<open>NewGrader\<close> returns a \<open>Block\<close> and nothing else, so it has no
  failure result to return: for a version other than 1 and 2 it panics with the message
  "invalid grader version". For version 1 and for version 2 it returns a grader of that
  version with the given height and list of previous winners, and no records.
\<close>

theorem NewGrader_versions:
  "(version \<noteq> 1 \<and> version \<noteq> 2
      \<longrightarrow> NewGrader version h pw = Inl (PanicMsg ''invalid grader version''))
   \<and> (version = 1
      \<longrightarrow> NewGrader version h pw = Inr (V1Block (zeroGrader\<lparr>height := h, prevWinners := pw\<rparr>)))
   \<and> (version = 2
      \<longrightarrow> NewGrader version h pw = Inr (V2Block (zeroGrader\<lparr>height := h, prevWinners := pw\<rparr>)))
   \<and> (\<forall>b. NewGrader version h pw = Inr b
      \<longrightarrow> Height (base b) = h \<and> GetPreviousWinners (base b) = pw \<and> Count (base b) = 0)"
  by (auto simp: NewGrader_def Height_def GetPreviousWinners_def Count_def zeroGrader_def)

theorem NewGrader_versions_witness:
  "NewGrader 2 7 [''ab''] = Inr (V2Block (zeroGrader\<lparr>height := 7, prevWinners := [''ab'']\<rparr>))
   \<and> Height (base (V2Block (zeroGrader\<lparr>height := 7, prevWinners := [''ab'']\<rparr>))) = 7
   \<and> NewGrader 0 7 [''ab''] = Inl (PanicMsg ''invalid grader version'')"
  using NewGrader_versions [of 2 7 "[''ab'']"] NewGrader_versions [of 0 7 "[''ab'']"]
  by (simp add: Height_def)

text \<open>Version 3 is answered with a panic, not with a result that says it failed.\<close>

theorem NewGrader_panics_counterexample:
  "NewGrader 3 0 [] = Inl (PanicMsg ''invalid grader version'')"
  by (simp add: NewGrader_def)

subsection \<open>Price vectors and the array of averages\<close>

lemma addTokens_Inr:
  "i + length tokens \<le> length avg
    \<Longrightarrow> \<exists>avg'. addTokens F i tokens avg = Inr avg' \<and> length avg' = length avg"
proof (induction tokens arbitrary: i avg)
  case Nil
  show ?case by simp
next
  case (Cons v tokens)
  let ?avg = "avg[i := (if fle F (fzero F) v then fadd F (avg ! i) v else fsub F (avg ! i) v)]"
  have "Suc i + length tokens \<le> length ?avg" using Cons.prems by simp
  from Cons.IH [OF this] Cons.prems show ?case by simp
qed

lemma addTokens_Inl:
  "i \<le> length avg \<Longrightarrow> length avg < i + length tokens
    \<Longrightarrow> addTokens F i tokens avg = Inl IndexOutOfRange"
proof (induction tokens arbitrary: i avg)
  case Nil
  then show ?case by simp
next
  case (Cons v tokens)
  let ?avg = "avg[i := (if fle F (fzero F) v then fadd F (avg ! i) v else fsub F (avg ! i) v)]"
  show ?case
  proof (cases "i < length avg")
    case True
    then have "Suc i \<le> length ?avg" "length ?avg < Suc i + length tokens"
      using Cons.prems by simp_all
    from Cons.IH [OF this] True show ?thesis by simp
  next
    case False
    then show ?thesis by simp
  qed
qed

lemma sumPrices_Inr:
  "\<forall>opr\<in>set list. length (Tokens opr) \<le> length avg
    \<Longrightarrow> \<exists>avg'. sumPrices F list avg = Inr avg' \<and> length avg' = length avg"
proof (induction list arbitrary: avg)
  case Nil
  show ?case by simp
next
  case (Cons opr list)
  from Cons.prems obtain avg1 where a: "addTokens F 0 (Tokens opr) avg = Inr avg1"
    and l: "length avg1 = length avg"
    using addTokens_Inr [of 0 "Tokens opr" avg F] by auto
  from Cons.prems l have "\<forall>opr\<in>set list. length (Tokens opr) \<le> length avg1" by simp
  from Cons.IH [OF this] show ?case by (simp add: a l)
qed

lemma sumPrices_Inl:
  "\<exists>opr\<in>set list. length avg < length (Tokens opr)
    \<Longrightarrow> sumPrices F list avg = Inl IndexOutOfRange"
proof (induction list arbitrary: avg)
  case Nil
  then show ?case by simp
next
  case (Cons opr list)
  show ?case
  proof (cases "length avg < length (Tokens opr)")
    case True
    then show ?thesis by (simp add: addTokens_Inl)
  next
    case False
    then obtain avg1 where a: "addTokens F 0 (Tokens opr) avg = Inr avg1"
      and l: "length avg1 = length avg"
      using addTokens_Inr [of 0 "Tokens opr" avg F] by auto
    from Cons.prems False l have "\<exists>opr\<in>set list. length avg1 < length (Tokens opr)" by simp
    from Cons.IH [OF this] show ?thesis by (simp add: a)
  qed
qed

lemma Avg_Inr:
  "\<forall>opr\<in>set list. length (Tokens opr) \<le> nAssets
    \<Longrightarrow> \<exists>avg. Avg F nAssets list = Inr avg \<and> length avg = nAssets"
  using sumPrices_Inr [of list "replicate nAssets (fzero F)" F]
  by (auto simp: Avg_def)

lemma Avg_Inl:
  "\<exists>opr\<in>set list. nAssets < length (Tokens opr) \<Longrightarrow> Avg F nAssets list = Inl IndexOutOfRange"
  using sumPrices_Inl [of list "replicate nAssets (fzero F)" F]
  by (simp add: Avg_def)

lemma gradeTokens_Inr:
  "i + length tokens \<le> length avg \<Longrightarrow> \<exists>g'. gradeTokens F avg i tokens g = Inr g'"
proof (induction tokens arbitrary: i g)
  case Nil
  show ?case by simp
next
  case (Cons v tokens)
  have "Suc i + length tokens \<le> length avg" using Cons.prems by simp
  from Cons.IH [OF this] Cons.prems show ?case by (simp add: Let_def)
qed

lemma gradeTokens_Inl:
  "i \<le> length avg \<Longrightarrow> length avg < i + length tokens
    \<Longrightarrow> gradeTokens F avg i tokens g = Inl IndexOutOfRange"
proof (induction tokens arbitrary: i g)
  case Nil
  then show ?case by simp
next
  case (Cons v tokens)
  show ?case
  proof (cases "i < length avg")
    case True
    then have "Suc i \<le> length avg" "length avg < Suc i + length tokens"
      using Cons.prems by simp_all
    from Cons.IH [OF this] True show ?thesis by (simp add: Let_def)
  next
    case False
    then show ?thesis by simp
  qed
qed

lemma CalculateGrade_Inr:
  "length (Tokens opr) \<le> length avg \<Longrightarrow> \<exists>g. CalculateGrade F avg opr = Inr (opr\<lparr>Grade := g\<rparr>)"
  using gradeTokens_Inr [of 0 "Tokens opr" avg F "fzero F"]
  by (auto simp: CalculateGrade_def)

lemma CalculateGrade_Inl:
  "length avg < length (Tokens opr) \<Longrightarrow> CalculateGrade F avg opr = Inl IndexOutOfRange"
  by (simp add: CalculateGrade_def gradeTokens_Inl)

lemma CalculateGrade_identity:
  "CalculateGrade F avg opr = Inr opr' \<Longrightarrow> identity opr' = identity opr"
  by (auto simp: CalculateGrade_def identity_def split: sum.splits)

lemma gradeAll_identity:
  "gradeAll F avg xs = Inr ys \<Longrightarrow> map identity ys = map identity xs"
  by (induction xs arbitrary: ys) (auto split: sum.splits dest: CalculateGrade_identity)

lemma gradePass_identity:
  assumes "gradePass F n i top50 = Inr top50'"
  shows "mset (map identity top50') = mset (map identity top50)"
proof -
  from assms obtain avg gs where g: "gradeAll F avg (take i top50) = Inr gs"
    and t: "top50' = rerank F gs @ drop i top50"
    by (auto simp: gradePass_def split: sum.splits)
  have "mset (map identity top50') = mset (map identity gs) + mset (map identity (drop i top50))"
    by (simp add: t mset_rerank)
  also have "\<dots> = mset (map identity (take i top50 @ drop i top50))"
    by (simp add: gradeAll_identity [OF g] del: append_take_drop_id)
  finally show ?thesis by simp
qed

text \<open>
  C9, as the code has it. Neither \<open>Avg\<close> nor \<open>CalculateGrade\<close> looks at the length of a
  price vector. When no record has more prices than the registry has assets, \<open>Avg\<close>
  returns an array of the registry's length; when one has more, \<open>Avg\<close> panics with an
  index out of range. \<open>CalculateGrade\<close> returns the record with a grade when the record
  has at most as many prices as there are averages, and panics with an index out of
  range when it has more. A pass of the grading loop that returns keeps every record:
  none is left out for the length of its price vector.
\<close>

theorem price_vector_bounds:
  "((\<forall>opr\<in>set list. length (Tokens opr) \<le> nAssets)
      \<longrightarrow> (\<exists>avg. Avg F nAssets list = Inr avg \<and> length avg = nAssets))
   \<and> ((\<exists>opr\<in>set list. nAssets < length (Tokens opr))
      \<longrightarrow> Avg F nAssets list = Inl IndexOutOfRange)
   \<and> (length (Tokens opr) \<le> length avg
      \<longrightarrow> (\<exists>g. CalculateGrade F avg opr = Inr (opr\<lparr>Grade := g\<rparr>)))
   \<and> (length avg < length (Tokens opr) \<longrightarrow> CalculateGrade F avg opr = Inl IndexOutOfRange)
   \<and> (\<forall>top50'. gradePass F nAssets i top50 = Inr top50'
      \<longrightarrow> mset (map identity top50') = mset (map identity top50))"
  using Avg_Inr [of list nAssets F] Avg_Inl [of list nAssets F]
    CalculateGrade_Inr [of opr avg F] CalculateGrade_Inl [of avg opr F]
    gradePass_identity [of F nAssets i top50]
  by blast

theorem price_vector_bounds_witness:
  "Avg exact_ops 1 [pricedRecord 1 5 1 0, pricedRecord 2 7 3 0] = Inr [2]
   \<and> CalculateGrade exact_ops [2] (pricedRecord 1 5 4 0) = Inr (pricedRecord 1 5 4 1)
   \<and> Avg exact_ops 1 [(pricedRecord 1 5 1 0)\<lparr>Tokens := [1, 2]\<rparr>] = Inl IndexOutOfRange
   \<and> CalculateGrade exact_ops [2] ((pricedRecord 1 5 1 0)\<lparr>Tokens := [1, 2]\<rparr>) = Inl IndexOutOfRange"
  using price_vector_bounds [of "[pricedRecord 1 5 1 0, pricedRecord 2 7 3 0]" 1 exact_ops
      "pricedRecord 1 5 4 0" "[2]" 1 "[]"]
    price_vector_bounds [of "[(pricedRecord 1 5 1 0)\<lparr>Tokens := [1, 2]\<rparr>]" 1 exact_ops
      "(pricedRecord 1 5 1 0)\<lparr>Tokens := [1, 2]\<rparr>" "[2]" 1 "[]"]
  by (simp add: Avg_def CalculateGrade_def pricedRecord_def honestRecord_def mkRecord_def
      exact_ops_def Let_def)

text \<open>
  With a registry of one asset, a record with two prices is not left out: \<open>Avg\<close> indexes
  past the array. With a registry of two assets, a record with one price is not left out
  either: it is graded on that price and ranked first.
\<close>

theorem price_vector_counterexample:
  "Avg exact_ops 1 [pricedRecord 1 5 1 0, (pricedRecord 2 7 1 0)\<lparr>Tokens := [1, 2]\<rparr>]
     = Inl IndexOutOfRange
   \<and> gradePass exact_ops 2 2 [pricedRecord 1 5 1 0, (pricedRecord 2 7 1 0)\<lparr>Tokens := [1, 3]\<rparr>]
     = Inr [pricedRecord 1 5 1 0, (pricedRecord 2 7 1 1)\<lparr>Tokens := [1, 3]\<rparr>]"
  by (simp add: gradePass_def Avg_def CalculateGrade_def rerank_def SliceStable_def
      pricedRecord_def honestRecord_def mkRecord_def exact_ops_def Let_def)

subsection \<open>sortByDifficulty\<close>

lemma Uint64_Inr: "8 \<le> length b \<Longrightarrow> \<exists>d. Uint64 b = Inr d"
  by (simp add: Uint64_def)

lemma insertStable_never: "insertStable (\<lambda>a b. False) x ys = x # ys"
  by (cases ys) simp_all

lemma SliceStable_never: "SliceStable (\<lambda>a b. False) xs = xs"
  by (induction xs) (simp_all add: SliceStable_def insertStable_never)

text \<open>The comparison never holds, so the sort leaves \<open>bg.oprs\<close> as it was.\<close>

lemma sortByDifficulty_loop:
  "sortByDifficulty lx limit bg =
     (case topXLoop lx limit (oprs bg) [] of Inl e \<Rightarrow> Inl e | Inr topX \<Rightarrow> Inr (bg\<lparr>oprs := topX\<rparr>))"
  by (simp add: sortByDifficulty_def SliceStable_never)

lemma topXLoop_take:
  "\<forall>o1\<in>set xs. 8 \<le> length (lx (gOPRHash o1 @ gNonce o1)) \<Longrightarrow> int (length acc) < limit
    \<Longrightarrow> topXLoop lx limit xs acc
        = Inr (acc @ take (nat limit - length acc) (filter (gHonest lx) xs))"
proof (induction xs arbitrary: acc)
  case Nil
  show ?case by simp
next
  case (Cons o1 xs)
  from Cons.prems(1) obtain d where d: "Uint64 (lx (gOPRHash o1 @ gNonce o1)) = Inr d"
    using Uint64_Inr [of "lx (gOPRHash o1 @ gNonce o1)"] by auto
  have rest: "\<forall>o1\<in>set xs. 8 \<le> length (lx (gOPRHash o1 @ gNonce o1))"
    using Cons.prems(1) by simp
  show ?case
  proof (cases "d = gSelfReportedDifficulty o1")
    case False
    then have "\<not> gHonest lx o1" by (simp add: gHonest_def d)
    with False show ?thesis
      using Cons.IH [OF rest Cons.prems(2)] by (simp add: d)
  next
    case True
    then have h: "gHonest lx o1" by (simp add: gHonest_def d)
    show ?thesis
    proof (cases "limit \<le> int (length (acc @ [o1]))")
      case full: True
      then have "nat limit - length acc = Suc 0" using Cons.prems(2) by simp
      with full True h show ?thesis by (simp add: d)
    next
      case more: False
      then have "int (length (acc @ [o1])) < limit" by simp
      from Cons.IH [OF rest this] more True h Cons.prems(2) show ?thesis
        by (simp add: d Suc_diff_le take_Cons')
    qed
  qed
qed

text \<open>Once \<open>xs\<close> holds enough honest records, what follows it is not looked at.\<close>

lemma topXLoop_stop:
  "\<forall>o1\<in>set xs. 8 \<le> length (lx (gOPRHash o1 @ gNonce o1)) \<Longrightarrow> int (length acc) < limit
    \<Longrightarrow> nat limit - length acc \<le> length (filter (gHonest lx) xs)
    \<Longrightarrow> topXLoop lx limit (xs @ ys) acc
        = Inr (acc @ take (nat limit - length acc) (filter (gHonest lx) xs))"
proof (induction xs arbitrary: acc)
  case Nil
  then show ?case by simp
next
  case (Cons o1 xs)
  from Cons.prems(1) obtain d where d: "Uint64 (lx (gOPRHash o1 @ gNonce o1)) = Inr d"
    using Uint64_Inr [of "lx (gOPRHash o1 @ gNonce o1)"] by auto
  have rest: "\<forall>o1\<in>set xs. 8 \<le> length (lx (gOPRHash o1 @ gNonce o1))"
    using Cons.prems(1) by simp
  show ?case
  proof (cases "d = gSelfReportedDifficulty o1")
    case False
    then have n: "\<not> gHonest lx o1" by (simp add: gHonest_def d)
    with Cons.prems(3) have "nat limit - length acc \<le> length (filter (gHonest lx) xs)" by simp
    from Cons.IH [OF rest Cons.prems(2) this] False n show ?thesis
      by (simp add: d)
  next
    case True
    then have h: "gHonest lx o1" by (simp add: gHonest_def d)
    show ?thesis
    proof (cases "limit \<le> int (length (acc @ [o1]))")
      case full: True
      then have "nat limit - length acc = Suc 0" using Cons.prems(2) by simp
      with full True h show ?thesis by (simp add: d)
    next
      case more: False
      then have lt: "int (length (acc @ [o1])) < limit" by simp
      have "nat limit - length (acc @ [o1]) \<le> length (filter (gHonest lx) xs)"
        using Cons.prems(3) h by simp
      from Cons.IH [OF rest lt this] more True h Cons.prems(2) show ?thesis
        by (simp add: d Suc_diff_le take_Cons')
    qed
  qed
qed

text \<open>With a limit of 0 or less the loop still stops only after its first honest record.\<close>

lemma topXLoop_nonpositive:
  "\<forall>o1\<in>set xs. 8 \<le> length (lx (gOPRHash o1 @ gNonce o1)) \<Longrightarrow> limit \<le> int (length acc)
    \<Longrightarrow> topXLoop lx limit xs acc = Inr (acc @ take 1 (filter (gHonest lx) xs))"
proof (induction xs)
  case Nil
  show ?case by simp
next
  case (Cons o1 xs)
  from Cons.prems(1) obtain d where d: "Uint64 (lx (gOPRHash o1 @ gNonce o1)) = Inr d"
    using Uint64_Inr [of "lx (gOPRHash o1 @ gNonce o1)"] by auto
  show ?case
    using Cons by (auto simp: d gHonest_def)
qed

lemma toyHash_2: "toyHash [a, b] = [0, 0, 0, 0, 0, 0, a, b]"
  by (simp add: toyHash_def numeral_eq_Suc)

lemma gHonest_partial:
  "(n, k) \<noteq> (9, 9) \<Longrightarrow>
   gHonest partialHash (mkGradingOPR n k c) \<longleftrightarrow> ucast n OR push_bit 8 (ucast k) = c"
  by (auto simp: gHonest_def mkGradingOPR_def partialHash_def toyHash_2 Uint64_def)

text \<open>
  On records whose slices have no spare capacity: for a limit of at least 1 and a hash
  of at least 8 bytes on every record of \<open>xs\<close>, \<open>sortByDifficulty\<close> compares, for each
  record it examines, the
  first 8 bytes of the hash of record hash followed by nonce, read as a big-endian
  unsigned 64-bit integer, with the self-reported difficulty, and leaves in \<open>bg.oprs\<close>
  exactly the first \<open>limit\<close> records for which the two are equal, in the order in which
  it met them. It stops as soon as it has \<open>limit\<close> of them: records that follow are not
  examined, whatever their hash.
\<close>

lemma verifier_contract:
  assumes limit: "1 \<le> limit"
    and hash: "\<forall>o1\<in>set xs. 8 \<le> length (lx (gOPRHash o1 @ gNonce o1))"
  shows "sortByDifficulty lx limit (bg\<lparr>oprs := xs\<rparr>)
           = Inr (bg\<lparr>oprs := take (nat limit) (filter (gHonest lx) xs)\<rparr>)
         \<and> (nat limit \<le> length (filter (gHonest lx) xs)
            \<longrightarrow> (\<forall>ys. sortByDifficulty lx limit (bg\<lparr>oprs := xs @ ys\<rparr>)
                      = Inr (bg\<lparr>oprs := take (nat limit) (filter (gHonest lx) xs)\<rparr>)))"
  using limit topXLoop_take [OF hash, of "[]" limit] topXLoop_stop [OF hash, of "[]" limit]
  by (simp add: sortByDifficulty_loop)

lemma verifier_contract_example:
  "sortByDifficulty partialHash 2
     (zeroGrader\<lparr>oprs := [mkGradingOPR 3 1 259, mkGradingOPR 1 2 9999, mkGradingOPR 2 1 258,
                         mkGradingOPR 1 1 257]\<rparr>)
   = Inr (zeroGrader\<lparr>oprs := [mkGradingOPR 3 1 259, mkGradingOPR 2 1 258]\<rparr>)
   \<and> sortByDifficulty partialHash 2
     (zeroGrader\<lparr>oprs := [mkGradingOPR 3 1 259, mkGradingOPR 1 2 9999, mkGradingOPR 2 1 258,
                         mkGradingOPR 1 1 257] @ [mkGradingOPR 9 9 0]\<rparr>)
   = Inr (zeroGrader\<lparr>oprs := [mkGradingOPR 3 1 259, mkGradingOPR 2 1 258]\<rparr>)"
  using verifier_contract [of 2 "[mkGradingOPR 3 1 259, mkGradingOPR 1 2 9999, mkGradingOPR 2 1 258,
                         mkGradingOPR 1 1 257]" partialHash zeroGrader]
  by (simp add: gHonest_partial) (simp add: mkGradingOPR_def partialHash_def toyHash_2 zeroGrader_def)

text \<open>
  C6. \<open>sortByDifficulty\<close> is to arrange the records in descending order of self-reported
  difficulty before it verifies them. Two honest records in ascending order, 257 before
  258, come out of it in ascending order: the comparison function compares the record
  at \<open>i\<close> with itself.
\<close>

theorem sortByDifficulty_keeps_order:
  "sortByDifficulty toyHash 50 (zeroGrader\<lparr>oprs := [mkGradingOPR 1 1 257, mkGradingOPR 2 1 258]\<rparr>)
     = Inr (zeroGrader\<lparr>oprs := [mkGradingOPR 1 1 257, mkGradingOPR 2 1 258]\<rparr>)
   \<and> map gSelfReportedDifficulty [mkGradingOPR 1 1 257, mkGradingOPR 2 1 258] = [257, 258]"
  by (simp add: sortByDifficulty_def SliceStable_def mkGradingOPR_def toyHash_2 Uint64_def
      zeroGrader_def)

text \<open>
  C1. Grading is to give the same result for every order of the same records. The
  stages of the grader that are in the source, \<open>filterDuplicates\<close> and then
  \<open>sortByDifficulty\<close> with the limit 50, keep the first fifty of fifty-one honest
  records in the order in which they came: from the ascending order the record of the
  highest difficulty is dropped, from the descending order it is kept.
\<close>

theorem pipeline_depends_on_order:
  "sortByDifficulty toyHash 50 (filterDuplicates (zeroGrader\<lparr>oprs := ascending51\<rparr>))
     = Inr (zeroGrader\<lparr>oprs := butlast ascending51\<rparr>)
   \<and> sortByDifficulty toyHash 50 (filterDuplicates (zeroGrader\<lparr>oprs := rev ascending51\<rparr>))
     = Inr (zeroGrader\<lparr>oprs := butlast (rev ascending51)\<rparr>)
   \<and> honestGradingOPR 51 \<notin> set (butlast ascending51)
   \<and> honestGradingOPR 51 \<in> set (butlast (rev ascending51))"
  by (simp add: sortByDifficulty_def filterDuplicates_def gIdentity_def SliceStable_def
      ascending51_def honestGradingOPR_def mkGradingOPR_def toyHash_2 Uint64_def zeroGrader_def)

subsection \<open>GradeMinimum\<close>

lemma narrow_stop: "i < 10 \<Longrightarrow> narrow F n i top50 = Inr top50"
  by (simp add: narrow.simps)

lemma narrow_step:
  "10 \<le> i \<Longrightarrow> gradePass F n i top50 = Inr top50'
    \<Longrightarrow> narrow F n i top50 = narrow F n (i - 1) top50'"
  by (subst narrow.simps) simp

text \<open>
  What \<open>GradeMinimum\<close> does keep: it returns nil exactly when the input has fewer than
  10 identity keys; the records of \<open>top50\<close> are the first 50 whose self-reported
  difficulty is the computed one, with that difficulty written into them; the grading
  loop changes grades and order only; so every record returned is honest.
\<close>

lemma findTop50_take:
  "\<forall>opr\<in>set xs. cd opr (Nonce opr) = Inr (vd opr) \<and> 8 \<le> length (SelfReportedDifficulty opr)
    \<Longrightarrow> length acc < 50
    \<Longrightarrow> findTop50 cd xs acc
        = Inr (acc @ take (50 - length acc)
                 (map (\<lambda>opr. opr\<lparr>Difficulty := vd opr\<rparr>)
                    (filter (\<lambda>opr. Uint64 (SelfReportedDifficulty opr) = Inr (vd opr)) xs)))"
proof (induction xs arbitrary: acc)
  case Nil
  show ?case by simp
next
  case (Cons opr xs)
  have d: "cd opr (Nonce opr) = Inr (vd opr)"
    using Cons.prems(1) by simp
  obtain f where f: "Uint64 (SelfReportedDifficulty opr) = Inr f"
    using Cons.prems(1) Uint64_Inr [of "SelfReportedDifficulty opr"] by auto
  have rest: "\<forall>opr\<in>set xs. cd opr (Nonce opr) = Inr (vd opr)
      \<and> 8 \<le> length (SelfReportedDifficulty opr)"
    using Cons.prems(1) by simp
  show ?case
  proof (cases "f = vd opr")
    case False
    with Cons.IH [OF rest Cons.prems(2)] show ?thesis by (simp add: d f)
  next
    case True
    show ?thesis
    proof (cases "length (acc @ [opr\<lparr>Difficulty := vd opr\<rparr>]) = 50")
      case full: True
      then have "50 - length acc = Suc 0" by simp
      with full True show ?thesis by (simp add: d f)
    next
      case more: False
      then have "length (acc @ [opr\<lparr>Difficulty := vd opr\<rparr>]) < 50"
        using Cons.prems(2) by simp
      from Cons.IH [OF rest this] more True Cons.prems(2) show ?thesis
        by (simp add: d f Suc_diff_le take_Cons')
    qed
  qed
qed

lemma findTop50_honest:
  "findTop50 cd xs acc = Inr top50
    \<Longrightarrow> \<forall>r\<in>set acc. Uint64 (SelfReportedDifficulty r) = Inr (Difficulty r)
    \<Longrightarrow> \<forall>r\<in>set top50. Uint64 (SelfReportedDifficulty r) = Inr (Difficulty r)"
proof (induction xs arbitrary: acc)
  case Nil
  then show ?case by simp
next
  case (Cons opr xs)
  from Cons.prems(1) obtain d f where d: "cd opr (Nonce opr) = Inr d"
    and f: "Uint64 (SelfReportedDifficulty opr) = Inr f"
    by (auto split: sum.splits)
  show ?case
  proof (cases "f = d")
    case False
    with Cons.prems d f have "findTop50 cd xs acc = Inr top50" by simp
    from Cons.IH [OF this Cons.prems(2)] show ?thesis .
  next
    case True
    let ?acc = "acc @ [opr\<lparr>Difficulty := d\<rparr>]"
    have acc: "\<forall>r\<in>set ?acc. Uint64 (SelfReportedDifficulty r) = Inr (Difficulty r)"
      using Cons.prems(2) f True by simp
    show ?thesis
    proof (cases "length ?acc = 50")
      case True
      with \<open>f = d\<close> Cons.prems(1) d f have "top50 = ?acc" by simp
      with acc show ?thesis by simp
    next
      case False
      with \<open>f = d\<close> Cons.prems(1) d f have "findTop50 cd xs ?acc = Inr top50" by simp
      from Cons.IH [OF this acc] show ?thesis .
    qed
  qed
qed

lemma CalculateGrade_frame:
  "CalculateGrade F avg opr = Inr opr' \<Longrightarrow> opr'\<lparr>Grade := g0\<rparr> = opr\<lparr>Grade := g0\<rparr>"
  by (auto simp: CalculateGrade_def split: sum.splits)

lemma gradeAll_frame:
  "gradeAll F avg xs = Inr ys
    \<Longrightarrow> map (\<lambda>r. r\<lparr>Grade := g0\<rparr>) ys = map (\<lambda>r. r\<lparr>Grade := g0\<rparr>) xs"
  by (induction xs arbitrary: ys) (auto split: sum.splits dest: CalculateGrade_frame)

lemma gradePass_frame:
  assumes "gradePass F n i top50 = Inr top50'"
  shows "mset (map (\<lambda>r. r\<lparr>Grade := g0\<rparr>) top50') = mset (map (\<lambda>r. r\<lparr>Grade := g0\<rparr>) top50)"
proof -
  from assms obtain avg gs where g: "gradeAll F avg (take i top50) = Inr gs"
    and t: "top50' = rerank F gs @ drop i top50"
    by (auto simp: gradePass_def split: sum.splits)
  have "mset (map (\<lambda>r. r\<lparr>Grade := g0\<rparr>) top50')
      = mset (map (\<lambda>r. r\<lparr>Grade := g0\<rparr>) gs) + mset (map (\<lambda>r. r\<lparr>Grade := g0\<rparr>) (drop i top50))"
    by (simp add: t mset_rerank)
  also have "\<dots> = mset (map (\<lambda>r. r\<lparr>Grade := g0\<rparr>) (take i top50 @ drop i top50))"
    by (simp add: gradeAll_frame [OF g] del: append_take_drop_id)
  finally show ?thesis by simp
qed

lemma narrow_frame:
  "narrow F n i top50 = Inr top50'
    \<Longrightarrow> mset (map (\<lambda>r. r\<lparr>Grade := g0\<rparr>) top50') = mset (map (\<lambda>r. r\<lparr>Grade := g0\<rparr>) top50)"
proof (induction F n i top50 rule: narrow.induct)
  case (1 F n i top50)
  show ?case
  proof (cases "10 \<le> i")
    case False
    with "1.prems" show ?thesis by (simp add: narrow.simps)
  next
    case True
    with "1.prems" obtain t where p: "gradePass F n i top50 = Inr t"
      and r: "narrow F n (i - 1) t = Inr top50'"
      by (subst (asm) narrow.simps) (auto split: sum.splits)
    from "1.IH" [OF True p r] gradePass_frame [OF p, of g0] show ?thesis by simp
  qed
qed

lemma GradeMinimum_None_iff:
  "GradeMinimum F cd n xs = Inr None \<longleftrightarrow> length (RemoveDuplicateSubmissions xs) < 10"
  by (auto simp: GradeMinimum_def split: sum.splits)

lemma GradeMinimum_Some:
  assumes "GradeMinimum F cd n xs = Inr (Some g)"
  shows "\<exists>top50. findTop50 cd xs [] = Inr top50
           \<and> mset (map (\<lambda>r. r\<lparr>Grade := g0\<rparr>) g) = mset (map (\<lambda>r. r\<lparr>Grade := g0\<rparr>) top50)"
proof -
  from assms obtain top50 where t: "findTop50 cd xs [] = Inr top50"
    and n: "narrow F n (length top50) top50 = Inr g"
    by (auto simp: GradeMinimum_def split: sum.splits if_splits)
  from narrow_frame [OF n, of g0] t show ?thesis by blast
qed

lemma GradeMinimum_honest:
  assumes g: "GradeMinimum F cd n xs = Inr (Some g)" and r: "r \<in> set g"
  shows "Uint64 (SelfReportedDifficulty r) = Inr (Difficulty r)"
proof -
  define p where "p = (\<lambda>x :: 'a OraclePriceRecord. (SelfReportedDifficulty x, Difficulty x))"
  define u where "u = (\<lambda>x :: 'a OraclePriceRecord. x\<lparr>Grade := Grade r\<rparr>)"
  have pu: "p (u x) = p x" for x
    by (simp add: p_def u_def)
  from GradeMinimum_Some [OF g, of "Grade r"] obtain top50
    where t: "findTop50 cd xs [] = Inr top50"
      and m: "mset (map u g) = mset (map u top50)"
    unfolding u_def by blast
  from m have "set (map u g) = set (map u top50)"
    by (metis set_mset_mset)
  then have "p ` u ` set g = p ` u ` set top50"
    by simp
  then have "p ` set g = p ` set top50"
    by (simp add: image_image pu)
  with r obtain r' where r': "r' \<in> set top50" and e: "p r' = p r"
    by (metis imageE imageI)
  from findTop50_honest [OF t] r' have "Uint64 (SelfReportedDifficulty r') = Inr (Difficulty r')"
    by simp
  with e show ?thesis
    by (simp add: p_def)
qed

lemma dedup_nine: "length (RemoveDuplicateSubmissions nineHonest) = 10"
  by (simp add: RemoveDuplicateSubmissions_def nineHonest_def identity_def honestRecord_def
      mkRecord_def)

lemma top_nine:
  "findTop50 (ComputeDifficulty toyHash) nineHonest [] =
     Inr [verifiedRecord 1 9, verifiedRecord 1 8, verifiedRecord 1 7, verifiedRecord 1 6,
          verifiedRecord 1 5, verifiedRecord 1 4, verifiedRecord 1 3, verifiedRecord 1 2,
          verifiedRecord 1 1]"
  by (simp add: nineHonest_def honestRecord_def verifiedRecord_def mkRecord_def
      ComputeDifficulty_def toyHash_2 Uint64_def)

text \<open>
  C2. With fewer than 10 honest unique records \<open>GradeMinimum\<close> is to return no graded
  records. Of ten submissions with ten identity keys, nine of them honest, it returns
  the nine honest ones, none of them graded: the length is tested on the deduplicated
  list before the difficulties are verified, and not again.
\<close>

theorem GradeMinimum_nine_honest:
  "GradeMinimum exact_ops (ComputeDifficulty toyHash) 1 nineHonest =
     Inr (Some [verifiedRecord 1 9, verifiedRecord 1 8, verifiedRecord 1 7, verifiedRecord 1 6,
          verifiedRecord 1 5, verifiedRecord 1 4, verifiedRecord 1 3, verifiedRecord 1 2,
          verifiedRecord 1 1])"
  by (simp add: GradeMinimum_def dedup_nine top_nine narrow_stop)

lemma dedup_eleven: "length (RemoveDuplicateSubmissions tenHonestOneTwice) = 10"
  by (simp add: RemoveDuplicateSubmissions_def tenHonestOneTwice_def identity_def honestRecord_def
      mkRecord_def)

lemma top_eleven:
  "findTop50 (ComputeDifficulty toyHash) tenHonestOneTwice [] = Inr elevenVerified"
  by (simp add: tenHonestOneTwice_def elevenVerified_def honestRecord_def verifiedRecord_def
      mkRecord_def ComputeDifficulty_def toyHash_2 Uint64_def)

lemma pass_eleven: "gradePass exact_ops 1 11 elevenVerified = Inr elevenVerified"
  by (simp add: gradePass_def Avg_def CalculateGrade_def rerank_def SliceStable_def
      elevenVerified_def verifiedRecord_def honestRecord_def mkRecord_def exact_ops_def Let_def)

lemma pass_ten: "gradePass exact_ops 1 10 elevenVerified = Inr elevenVerified"
  by (simp add: gradePass_def Avg_def CalculateGrade_def rerank_def SliceStable_def
      elevenVerified_def verifiedRecord_def honestRecord_def mkRecord_def exact_ops_def Let_def)

text \<open>
  C3. No two records returned by \<open>GradeMinimum\<close> are to share an identity key. Of eleven
  honest submissions, two of them with the same nonce and record hash, it returns all
  eleven: the deduplicated list is used for its length only, and the loop that verifies
  the difficulties runs over the list as it came.
\<close>

theorem GradeMinimum_keeps_duplicate:
  "GradeMinimum exact_ops (ComputeDifficulty toyHash) 1 tenHonestOneTwice = Inr (Some elevenVerified)
   \<and> length elevenVerified = 11
   \<and> identity (elevenVerified ! 9) = identity (elevenVerified ! 10)"
proof -
  have "narrow exact_ops 1 11 elevenVerified = narrow exact_ops 1 (11 - 1) elevenVerified"
    by (rule narrow_step [OF _ pass_eleven]) simp
  also have "\<dots> = narrow exact_ops 1 (10 - 1) elevenVerified"
    using narrow_step [OF _ pass_ten] by simp
  also have "\<dots> = Inr elevenVerified"
    by (simp add: narrow_stop)
  finally have n: "narrow exact_ops 1 11 elevenVerified = Inr elevenVerified" .
  have l: "length elevenVerified = 11"
    by (simp add: elevenVerified_def)
  have "GradeMinimum exact_ops (ComputeDifficulty toyHash) 1 tenHonestOneTwice
          = Inr (Some elevenVerified)"
    using n by (simp add: GradeMinimum_def dedup_eleven top_eleven l)
  moreover have "identity (elevenVerified ! 9) = identity (elevenVerified ! 10)"
    by (simp add: elevenVerified_def)
  ultimately show ?thesis using l by simp
qed

subsection \<open>Slices on shared buffers\<close>

text \<open>
  A slice without spare capacity is appended to by allocation. On records whose slices
  have none, the loops on the memory are the loops on byte lists above and leave the
  memory as it was.
\<close>

lemma appendWrite_full: "sCap s = sLen s \<Longrightarrow> appendWrite m s bs = m"
  by (cases bs) (simp_all add: appendWrite_def)

lemma dedupLoopAt_full:
  "\<forall>v\<in>set list. sCap (NonceAt v) = sLen (NonceAt v)
    \<Longrightarrow> dedupLoopAt m added list nlist = (dedupLoop (identityAt m) added list nlist, m)"
  by (induction list arbitrary: added nlist) (simp_all add: appendWrite_full identityAt_def)

lemma RemoveDuplicateSubmissionsAt_full:
  "\<forall>v\<in>set list. sCap (NonceAt v) = sLen (NonceAt v)
    \<Longrightarrow> RemoveDuplicateSubmissionsAt m list = (firstOccurrences (identityAt m) list, m)"
  by (simp add: RemoveDuplicateSubmissionsAt_def dedupLoopAt_full dedupLoop_empty
      dedupFrom_firstOccurrences)

lemma topXLoopAt_full:
  "\<forall>v\<in>set list. sCap (OPRHashAt v) = sLen (OPRHashAt v)
    \<Longrightarrow> map_sum id (\<lambda>(t, m'). (map (valueAt m) t, m')) (topXLoopAt lx limit m list acc)
        = map_sum id (\<lambda>t. (t, m)) (topXLoop lx limit (map (valueAt m) list) (map (valueAt m) acc))"
  by (induction list arbitrary: acc) (auto simp: appendWrite_full valueAt_def split: sum.splits)

lemma sortByDifficultyAt_loop: "sortByDifficultyAt lx limit m rs = topXLoopAt lx limit m rs []"
  by (simp add: sortByDifficultyAt_def SliceStable_never)

text \<open>
  C10. \<open>RemoveDuplicateSubmissions\<close> is to return the first record of every identity
  key and to leave the records as they are. Of three records with three identity keys,
  two of them with their nonces cut from one buffer, it returns two: the
  \<open>append(v.Nonce, v.OPRHash...)\<close> that builds the key of the second writes its record
  hash over the nonce of the third, which then has the key of the first and is dropped.
  \<open>filterDuplicates\<close> has the same loop.
\<close>

theorem RemoveDuplicateSubmissions_shared_buffer:
  "map (identityAt [1, 2, 7, 9, 7, 9]) sharedNonces = [[7, 9], [1, 7], [2, 9]]
   \<and> RemoveDuplicateSubmissionsAt [1, 2, 7, 9, 7, 9] sharedNonces
     = (butlast sharedNonces, [1, 7, 7, 9, 7, 9])
   \<and> filterDuplicatesAt [1, 2, 7, 9, 7, 9] sharedNonces
     = (butlast sharedNonces, [1, 7, 7, 9, 7, 9])"
  by (simp add: RemoveDuplicateSubmissionsAt_def filterDuplicatesAt_def sharedNonces_def
      identityAt_def bytesOf_def appendWrite_def)

text \<open>
  C4. The verifier is to return the first \<open>limit\<close> records whose difficulty, recomputed
  from record hash and nonce, is the self-reported one. Of two honest records with their
  record hashes cut from one buffer, \<open>sortByDifficulty\<close> with the limit 50 returns the
  first only: the \<open>append(o.OPRHash, o.Nonce...)\<close> that builds the hash input of the
  first writes its nonce over the record hash of the second, which is then hashed with
  the wrong bytes and skipped.
\<close>

theorem sortByDifficulty_shared_buffer:
  "map (gHonest toyHash) (map (valueAt [2, 1, 5, 6]) sharedHashes) = [True, True]
   \<and> sortByDifficultyAt toyHash 50 [2, 1, 5, 6] sharedHashes
     = Inr ([hd sharedHashes], [2, 5, 5, 6])"
  by (simp add: sortByDifficultyAt_def SliceStable_def sharedHashes_def valueAt_def gHonest_def
      bytesOf_def appendWrite_def toyHash_2 Uint64_def)

end
